theory Spec2Isabelle
  imports Complex_Main
begin

section \<open>The prediction-serving core of src/api/main.py\<close>

text \<open>
  The embedding follows \<^verbatim>\<open>src/src/api/main.py\<close>. The value of a Python float
  is a real; a cell of the pandas frame, which may hold an infinity or NaN after a
  division, is an \<open>fvalue\<close>. The float product and \<^verbatim>\<open>round\<close> of the
  endpoint are operations of the interpreter, passed in as the record
  \<open>arithmetic\<close>. Exceptions are values of type \<open>exn\<close>, and a function that may
  raise returns \<open>exn + 'a\<close>. The mutable surroundings of a request (the SQLite file,
  the Prometheus collectors, the clock) are the record \<open>world\<close>, passed in and
  returned. Calls to \<^verbatim>\<open>logger\<close> only write text to the operational log and
  do not influence control flow; they are left out.
\<close>

subsection \<open>Request schema (class HousingFeatures, lines 57-87)\<close>

record HousingFeatures =
  MedInc :: real
  HouseAge :: real
  AveRooms :: real
  AveBedrms :: real
  Population :: real
  AveOccup :: real
  Latitude :: real
  Longitude :: real

text \<open>
  One entry of a pydantic validation error: the field it is located at, and which check
  failed (the bound \<^verbatim>\<open>ge\<close>, the bound \<^verbatim>\<open>le\<close>, or a
  \<^verbatim>\<open>ValueError\<close> raised by a \<^verbatim>\<open>@validator\<close>).
\<close>

datatype field_error =
    NotGe string real
  | NotLe string real
  | ValueError string string

fun error_loc :: "field_error \<Rightarrow> string" where
  "error_loc (NotGe name b) = name"
| "error_loc (NotLe name b) = name"
| "error_loc (ValueError name msg) = name"

text \<open>\<^verbatim>\<open>Field(..., ge=lo, le=hi)\<close>: the bounds of a constrained float, checked in
  this order; the first failing check is the field's error.\<close>

definition Field :: "string \<Rightarrow> real \<Rightarrow> real \<Rightarrow> real \<Rightarrow> field_error + real" where
  "Field name lo hi v =
     (if \<not> lo \<le> v then Inl (NotGe name lo)
      else if \<not> v \<le> hi then Inl (NotLe name hi)
      else Inr v)"

text \<open>The \<^verbatim>\<open>@validator('AveOccup')\<close> of lines 69-73.\<close>

definition validate_ave_occup :: "real \<Rightarrow> field_error + real" where
  "validate_ave_occup v =
     (if v \<le> 0 then Inl (ValueError ''AveOccup'' ''AveOccup must be greater than 0'')
      else Inr v)"

text \<open>
  A validator declared with \<^verbatim>\<open>@validator\<close> (not \<^verbatim>\<open>pre=True\<close>) runs
  after the field's own checks, and only on a value that passed them.
\<close>

definition then_validator ::
  "field_error + real \<Rightarrow> (real \<Rightarrow> field_error + real) \<Rightarrow> field_error + real" where
  "then_validator r validator = (case r of Inl e \<Rightarrow> Inl e | Inr v \<Rightarrow> validator v)"

fun errors_of :: "(field_error + real) list \<Rightarrow> field_error list" where
  "errors_of [] = []"
| "errors_of (Inl e # rs) = e # errors_of rs"
| "errors_of (Inr v # rs) = errors_of rs"

text \<open>The eight fields in declaration order, each validated on its own.\<close>

definition validate_fields :: "HousingFeatures \<Rightarrow> (field_error + real) list" where
  "validate_fields raw =
     [Field ''MedInc'' 0 15 (MedInc raw),
      Field ''HouseAge'' 0 100 (HouseAge raw),
      Field ''AveRooms'' 1 20 (AveRooms raw),
      Field ''AveBedrms'' 0 5 (AveBedrms raw),
      Field ''Population'' 0 50000 (Population raw),
      then_validator (Field ''AveOccup'' (1 / 2) 20 (AveOccup raw)) validate_ave_occup,
      Field ''Latitude'' 32 42 (Latitude raw),
      Field ''Longitude'' (- 125) (- 114) (Longitude raw)]"

text \<open>
  Constructing a \<^verbatim>\<open>HousingFeatures\<close> from the eight numbers of a request body:
  the errors of all fields are collected; the object exists only when there is none.
\<close>

definition HousingFeatures_init :: "HousingFeatures \<Rightarrow> field_error list + HousingFeatures" where
  "HousingFeatures_init raw =
     (let errors = errors_of (validate_fields raw)
      in if errors = [] then Inr raw else Inl errors)"

text \<open>The declared inclusive ranges of section 3 of the specification, as one predicate.\<close>

definition in_declared_ranges :: "HousingFeatures \<Rightarrow> bool" where
  "in_declared_ranges f =
     (0 \<le> MedInc f \<and> MedInc f \<le> 15 \<and>
      0 \<le> HouseAge f \<and> HouseAge f \<le> 100 \<and>
      1 \<le> AveRooms f \<and> AveRooms f \<le> 20 \<and>
      0 \<le> AveBedrms f \<and> AveBedrms f \<le> 5 \<and>
      0 \<le> Population f \<and> Population f \<le> 50000 \<and>
      1 / 2 \<le> AveOccup f \<and> AveOccup f \<le> 20 \<and>
      32 \<le> Latitude f \<and> Latitude f \<le> 42 \<and>
      - 125 \<le> Longitude f \<and> Longitude f \<le> - 114)"

text \<open>The fixed input of the health check (lines 314-317).\<close>

definition test_features :: HousingFeatures where
  "test_features =
     \<lparr>MedInc = 5, HouseAge = 10, AveRooms = 6, AveBedrms = 1,
      Population = 1000, AveOccup = 3, Latitude = 35, Longitude = - 120\<rparr>"

subsection \<open>Exceptions, artifacts and the service object (lines 109-118)\<close>

text \<open>
  An exception carries a message. A message is a literal text, or the text of another
  exception, \<^verbatim>\<open>str(e)\<close>, possibly behind a literal prefix as in
  \<^verbatim>\<open>f"Prediction failed: {e}"\<close>. How \<^verbatim>\<open>str\<close> renders an exception is
  the library's business; the model keeps the exception itself.
\<close>

datatype exn =
    RuntimeError message
  | HTTPException nat message
  | ValidationError "field_error list"
  | Exception message
and message =
    Text string
  | StrOf exn
  | Prefixed string exn

datatype fvalue = Fin real | PosInf | NegInf | NaN

text \<open>A trained estimator is its \<^verbatim>\<open>predict\<close> on one row; a fitted scaler is its
  \<^verbatim>\<open>transform\<close> on one row. Either may raise.\<close>

type_synonym estimator = "fvalue list \<Rightarrow> exn + real"
type_synonym transformer = "fvalue list \<Rightarrow> exn + fvalue list"

datatype info_value = Str string | StrList "string list" | Time nat

record MLModelService =
  model :: "estimator option"
  scaler :: "transformer option"
  model_info :: "string \<rightharpoonup> info_value"
  feature_names :: "string list"

definition MLModelService_new :: MLModelService where
  "MLModelService_new =
     \<lparr>model = None, scaler = None, model_info = Map.empty, feature_names = []\<rparr>"

text \<open>\<^verbatim>\<open>self.model_info.get('version', dflt)\<close>.\<close>

definition get_version :: "MLModelService \<Rightarrow> string \<Rightarrow> string" where
  "get_version self dflt =
     (case model_info self ''version'' of Some (Str v) \<Rightarrow> v | _ \<Rightarrow> dflt)"

subsection \<open>Model Store: load_model (lines 120-166)\<close>

text \<open>
  What start-up finds outside the process: the answer of the MLflow registry, which
  files exist, what \<^verbatim>\<open>joblib.load\<close> gives for a model file and for the scaler
  file, and the clock.
\<close>

record environment =
  mlflow_load_model :: "exn + estimator"
  path_exists :: "string \<Rightarrow> bool"
  joblib_load_model :: "string \<Rightarrow> exn + estimator"
  joblib_load_scaler :: "exn + transformer"
  datetime_now :: nat

definition model_files :: "(string \<times> string) list" where
  "model_files =
     [(''gradient_boosting'', ''models/gradient_boosting.joblib''),
      (''random_forest'', ''models/random_forest.joblib''),
      (''linear_regression'', ''models/linear_regression.joblib'')]"

text \<open>The \<^verbatim>\<open>for\<close> loop of lines 138-144: the first existing file is loaded and the
  loop left; a file that exists and fails to load raises out of the loop; when no file
  exists the loop ends and \<^verbatim>\<open>self.model\<close> stays as it was.\<close>

fun load_local ::
  "environment \<Rightarrow> (string \<times> string) list \<Rightarrow> MLModelService \<Rightarrow> exn + MLModelService" where
  "load_local env [] self = Inr self"
| "load_local env ((model_name, path) # rest) self =
     (if path_exists env path then
        (case joblib_load_model env path of
           Inl e \<Rightarrow> Inl e
         | Inr m \<Rightarrow>
             Inr (self\<lparr>model := Some m,
                       model_info := (model_info self)
                         (''source'' \<mapsto> Str (''Local file: '' @ path),
                          ''version'' \<mapsto> Str ''1.0.0'')\<rparr>))
      else load_local env rest self)"

text \<open>Lines 124-144: the registry first, any exception there falls back to the files.\<close>

definition resolve_model :: "environment \<Rightarrow> MLModelService \<Rightarrow> exn + MLModelService" where
  "resolve_model env self =
     (case mlflow_load_model env of
        Inr m \<Rightarrow>
          Inr (self\<lparr>model := Some m,
                    model_info := (model_info self)
                      (''source'' \<mapsto> Str ''MLflow Registry'',
                       ''version'' \<mapsto> Str ''Production'')\<rparr>)
      | Inl e \<Rightarrow> load_local env model_files self)"

text \<open>Lines 146-149.\<close>

definition load_scaler :: "environment \<Rightarrow> MLModelService \<Rightarrow> exn + MLModelService" where
  "load_scaler env self =
     (if path_exists env ''models/scaler.joblib'' then
        (case joblib_load_scaler env of
           Inl e \<Rightarrow> Inl e
         | Inr s \<Rightarrow> Inr (self\<lparr>scaler := Some s\<rparr>))
      else Inr self)"

text \<open>Lines 151-162.\<close>

definition set_metadata :: "environment \<Rightarrow> MLModelService \<Rightarrow> MLModelService" where
  "set_metadata env self =
     (let names =
        [''MedInc'', ''HouseAge'', ''AveRooms'', ''AveBedrms'', ''Population'',
         ''AveOccup'', ''Latitude'', ''Longitude'', ''rooms_per_household'',
         ''bedrooms_per_room'', ''population_per_household'']
      in self\<lparr>feature_names := names,
              model_info := (model_info self)
                (''model_name'' \<mapsto> Str ''California Housing Price Predictor'',
                 ''features'' \<mapsto> StrList names,
                 ''last_updated'' \<mapsto> Time (datetime_now env))\<rparr>)"

text \<open>The whole of \<^verbatim>\<open>load_model\<close>: any exception of the body is re-raised as a
  \<^verbatim>\<open>RuntimeError\<close> (lines 164-166), which ends the process at import time.\<close>

definition load_model :: "environment \<Rightarrow> MLModelService \<Rightarrow> exn + MLModelService" where
  "load_model env self =
     (case resolve_model env self of
        Inl e \<Rightarrow> Inl (RuntimeError (Prefixed ''Could not load model: '' e))
      | Inr self1 \<Rightarrow>
          (case load_scaler env self1 of
             Inl e \<Rightarrow> Inl (RuntimeError (Prefixed ''Could not load model: '' e))
           | Inr self2 \<Rightarrow> Inr (set_metadata env self2)))"

subsection \<open>Feature engineering: preprocess_input (lines 188-209)\<close>

text \<open>Division of two float64 cells: a zero denominator gives an infinity or NaN, it
  does not raise.\<close>

definition fdiv :: "real \<Rightarrow> real \<Rightarrow> fvalue" where
  "fdiv a b =
     (if b \<noteq> 0 then Fin (a / b)
      else if 0 < a then PosInf
      else if a < 0 then NegInf
      else NaN)"

text \<open>The one row of the frame after lines 191-197: the eight raw columns, then the
  three ratios.\<close>

definition add_engineered_features :: "HousingFeatures \<Rightarrow> fvalue list" where
  "add_engineered_features features =
     [Fin (MedInc features), Fin (HouseAge features), Fin (AveRooms features),
      Fin (AveBedrms features), Fin (Population features), Fin (AveOccup features),
      Fin (Latitude features), Fin (Longitude features),
      fdiv (AveRooms features) (AveOccup features),
      fdiv (AveBedrms features) (AveRooms features),
      fdiv (Population features) (AveOccup features)]"

text \<open>Line 200: \<^verbatim>\<open>df.replace([np.inf, -np.inf], np.nan)\<close>.\<close>

fun replace_inf :: "fvalue \<Rightarrow> fvalue" where
  "replace_inf PosInf = NaN"
| "replace_inf NegInf = NaN"
| "replace_inf v = v"

text \<open>Line 201: \<^verbatim>\<open>df.fillna(df.mean())\<close>. The mean of a column skips NaN and
  is NaN when nothing is left; the infinities are gone by then.\<close>

definition column_mean :: "fvalue list \<Rightarrow> fvalue" where
  "column_mean col =
     (let xs = [x. Fin x \<leftarrow> col]
      in if xs = [] then NaN else Fin (sum_list xs / real (length xs)))"

fun fillna :: "fvalue \<Rightarrow> fvalue \<Rightarrow> fvalue" where
  "fillna mean NaN = mean"
| "fillna mean v = v"

text \<open>The frame has exactly one row, so every column is a single cell.\<close>

definition handle_non_finite :: "fvalue list \<Rightarrow> fvalue list" where
  "handle_non_finite row =
     map (\<lambda>cell. let v = replace_inf cell in fillna (column_mean [v]) v) row"

definition preprocess_input :: "MLModelService \<Rightarrow> HousingFeatures \<Rightarrow> exn + fvalue list" where
  "preprocess_input self features =
     (let df = handle_non_finite (add_engineered_features features)
      in case scaler self of
           Some s \<Rightarrow> s df
         | None \<Rightarrow> Inr df)"

fun is_finite :: "fvalue \<Rightarrow> bool" where
  "is_finite (Fin x) = True"
| "is_finite v = False"

subsection \<open>Prediction log and metrics (lines 31-51, 168-186, 211-233)\<close>

datatype predictions_row =
  Row (row_id: nat) (row_timestamp: nat) (row_input_features: HousingFeatures)
      (row_prediction: real) (row_model_version: string)

text \<open>
  What a request can change: the rows of table \<^verbatim>\<open>predictions\<close>, and the two
  Prometheus collectors (\<open>None\<close> when \<^verbatim>\<open>prometheus_client\<close> could not be
  set up, lines 47-51). \<open>db_writable\<close> says whether SQLite accepts the insert;
  \<open>clock\<close> is the reading of \<^verbatim>\<open>datetime.now()\<close>, taken as constant during
  one request.
\<close>

record world =
  predictions :: "predictions_row list"
  db_writable :: bool
  METRICS_ENABLED :: bool
  prediction_counter :: "nat option"
  prediction_histogram :: "nat option"
  clock :: nat

text \<open>The \<^verbatim>\<open>INSERT\<close> of lines 215-227, with the auto-incremented id.\<close>

definition insert_prediction ::
  "world \<Rightarrow> nat \<Rightarrow> HousingFeatures \<Rightarrow> real \<Rightarrow> string \<Rightarrow> exn + world" where
  "insert_prediction w ts features prediction version =
     (if db_writable w then
        Inr (w\<lparr>predictions :=
               predictions w @ [Row (Suc (length (predictions w))) ts features prediction version]\<rparr>)
      else Inl (Exception (Text ''unable to write to logs/predictions.db'')))"

text \<open>\<^verbatim>\<open>log_prediction\<close>: every exception of the body is caught (lines 232-233).\<close>

definition log_prediction :: "MLModelService \<Rightarrow> world \<Rightarrow> HousingFeatures \<Rightarrow> real \<Rightarrow> world" where
  "log_prediction self w features prediction =
     (case insert_prediction w (clock w) features prediction (get_version self ''unknown'') of
        Inr w' \<Rightarrow> w'
      | Inl e \<Rightarrow> w)"

text \<open>Lines 245-249: the call of the model, timed by the histogram when metrics are on;
  the context manager records its observation also when the call raises.\<close>

definition timed_predict :: "estimator \<Rightarrow> world \<Rightarrow> fvalue list \<Rightarrow> (exn + real) \<times> world" where
  "timed_predict m w X =
     (if METRICS_ENABLED w \<and> prediction_histogram w \<noteq> None then
        (m X, w\<lparr>prediction_histogram := map_option Suc (prediction_histogram w)\<rparr>)
      else (m X, w))"

text \<open>Lines 255-256.\<close>

definition update_metrics :: "world \<Rightarrow> world" where
  "update_metrics w =
     (if METRICS_ENABLED w \<and> prediction_counter w \<noteq> None then
        w\<lparr>prediction_counter := map_option Suc (prediction_counter w)\<rparr>
      else w)"

subsection \<open>MLModelService.predict (lines 235-262)\<close>

definition predict :: "MLModelService \<Rightarrow> world \<Rightarrow> HousingFeatures \<Rightarrow> (exn + real) \<times> world" where
  "predict self w features =
     (case model self of
        None \<Rightarrow> (Inl (RuntimeError (Text ''Model not loaded'')), w)
      | Some m \<Rightarrow>
          (case preprocess_input self features of
             Inl e \<Rightarrow> (Inl (HTTPException 500 (Prefixed ''Prediction failed: '' e)), w)
           | Inr X \<Rightarrow>
               (case timed_predict m w X of
                  (Inl e, w1) \<Rightarrow>
                    (Inl (HTTPException 500 (Prefixed ''Prediction failed: '' e)), w1)
                | (Inr prediction, w1) \<Rightarrow>
                    (Inr prediction, update_metrics (log_prediction self w1 features prediction)))))"

subsection \<open>The endpoints (lines 291-343)\<close>

text \<open>
  The two float operations of \<^verbatim>\<open>predict_price\<close>: the product
  \<^verbatim>\<open>x * c\<close> of a float with a float literal, and
  \<^verbatim>\<open>round(x, ndigits)\<close>. They belong to the interpreter and its numeric library,
  not to this repository, and are taken as they are given: the endpoint is modelled for
  any such pair of operations.
\<close>

record arithmetic =
  float_mul :: "real \<Rightarrow> real \<Rightarrow> real"
  float_round :: "real \<Rightarrow> nat \<Rightarrow> real"

record PredictionResponse =
  prediction :: real
  model_version :: string
  timestamp :: nat
  confidence_interval :: "string \<rightharpoonup> real"

text \<open>The body of \<^verbatim>\<open>predict_price\<close> (lines 294-306), given a validated object.\<close>

definition predict_price ::
  "arithmetic \<Rightarrow> MLModelService \<Rightarrow> world \<Rightarrow> HousingFeatures \<Rightarrow>
     (exn + PredictionResponse) \<times> world" where
  "predict_price ar ml_service w features =
     (case predict ml_service w features of
        (Inr p, w') \<Rightarrow>
          (Inr \<lparr>prediction = float_round ar p 2,
                model_version = get_version ml_service ''unknown'',
                timestamp = clock w',
                confidence_interval =
                  [''lower'' \<mapsto> float_round ar (float_mul ar p 0.85) 2,
                   ''upper'' \<mapsto> float_round ar (float_mul ar p 1.15) 2]\<rparr>,
           w')
      | (Inl e, w') \<Rightarrow> (Inl (HTTPException 500 (StrOf e)), w'))"

text \<open>
  \<^verbatim>\<open>POST /predict\<close> as the framework serves it: the body is turned into a
  \<^verbatim>\<open>HousingFeatures\<close> before the handler is called; a validation error is answered
  with 422 and the handler does not run; an \<^verbatim>\<open>HTTPException\<close> of the handler
  is answered with its status and its detail.
\<close>

datatype http_response =
    Status200 PredictionResponse
  | Status422 "field_error list"
  | StatusError nat message

fun error_response :: "exn \<Rightarrow> http_response" where
  "error_response (HTTPException status detail) = StatusError status detail"
| "error_response e = StatusError 500 (Text ''Internal Server Error'')"

definition post_predict ::
  "arithmetic \<Rightarrow> MLModelService \<Rightarrow> world \<Rightarrow> HousingFeatures \<Rightarrow>
     http_response \<times> world" where
  "post_predict ar ml_service w body =
     (case HousingFeatures_init body of
        Inl errors \<Rightarrow> (Status422 errors, w)
      | Inr features \<Rightarrow>
          (case predict_price ar ml_service w features of
             (Inr response, w') \<Rightarrow> (Status200 response, w')
           | (Inl e, w') \<Rightarrow> (error_response e, w')))"

datatype json = JStr string | JBool bool | JTime nat | JMsg message

text \<open>\<^verbatim>\<open>GET /health\<close> (lines 309-331); the answer is a dict.\<close>

definition health_check :: "MLModelService \<Rightarrow> world \<Rightarrow> (string \<rightharpoonup> json) \<times> world" where
  "health_check ml_service w =
     (case HousingFeatures_init test_features of
        Inl errors \<Rightarrow>
          ([''status'' \<mapsto> JStr ''unhealthy'',
            ''error'' \<mapsto> JMsg (StrOf (ValidationError errors)),
            ''timestamp'' \<mapsto> JTime (clock w)], w)
      | Inr features \<Rightarrow>
          (case predict ml_service w features of
             (Inr p, w') \<Rightarrow>
               ([''status'' \<mapsto> JStr ''healthy'',
                 ''model_loaded'' \<mapsto> JBool (model ml_service \<noteq> None),
                 ''scaler_loaded'' \<mapsto> JBool (scaler ml_service \<noteq> None),
                 ''timestamp'' \<mapsto> JTime (clock w')], w')
           | (Inl e, w') \<Rightarrow>
               ([''status'' \<mapsto> JStr ''unhealthy'',
                 ''error'' \<mapsto> JMsg (StrOf e),
                 ''timestamp'' \<mapsto> JTime (clock w')], w')))"

text \<open>\<^verbatim>\<open>GET /model/info\<close> (lines 334-343).\<close>

definition get_info :: "MLModelService \<Rightarrow> string \<Rightarrow> string \<Rightarrow> info_value" where
  "get_info self key dflt = (case model_info self key of Some v \<Rightarrow> v | None \<Rightarrow> Str dflt)"

datatype ModelInfo =
  ModelInfo (info_model_name: info_value) (info_model_version: info_value)
            (info_features: "string list") (performance_metrics: "string \<rightharpoonup> real")
            (info_last_updated: info_value)

definition get_model_info :: "MLModelService \<Rightarrow> ModelInfo" where
  "get_model_info ml_service =
     ModelInfo (get_info ml_service ''model_name'' ''Unknown'')
               (get_info ml_service ''version'' ''Unknown'')
               (feature_names ml_service)
               [''rmse'' \<mapsto> 0.52, ''r2_score'' \<mapsto> 0.82]
               (get_info ml_service ''last_updated'' ''Unknown'')"

subsection \<open>Reference notions used in the statements\<close>

text \<open>The table of section 3 of the specification: field, minimum, maximum, and the
  field's value in a request.\<close>

definition declared_ranges :: "HousingFeatures \<Rightarrow> (string \<times> real \<times> real \<times> real) list" where
  "declared_ranges raw =
     [(''MedInc'', 0, 15, MedInc raw),
      (''HouseAge'', 0, 100, HouseAge raw),
      (''AveRooms'', 1, 20, AveRooms raw),
      (''AveBedrms'', 0, 5, AveBedrms raw),
      (''Population'', 0, 50000, Population raw),
      (''AveOccup'', 1 / 2, 20, AveOccup raw),
      (''Latitude'', 32, 42, Latitude raw),
      (''Longitude'', - 125, - 114, Longitude raw)]"

text \<open>For every field outside its declared range, the bound it violates; in the order
  of the table.\<close>

fun range_violation :: "string \<times> real \<times> real \<times> real \<Rightarrow> field_error list" where
  "range_violation (name, lo, hi, v) =
     (if v < lo then [NotGe name lo] else if hi < v then [NotLe name hi] else [])"

definition range_violations :: "HousingFeatures \<Rightarrow> field_error list" where
  "range_violations raw = concat (map range_violation (declared_ranges raw))"

definition scaler_path :: string where
  "scaler_path = ''models/scaler.joblib''"

text \<open>The first existing local model file, in the order gradient boosting, random
  forest, linear regression.\<close>

definition first_existing :: "environment \<Rightarrow> string option" where
  "first_existing env = find (path_exists env) (map snd model_files)"

text \<open>The model that registry and files give, if any: the registry's when it answers,
  else the first existing file's when that file loads.\<close>

definition resolved_model :: "environment \<Rightarrow> estimator option" where
  "resolved_model env =
     (case mlflow_load_model env of
        Inr m \<Rightarrow> Some m
      | Inl e \<Rightarrow>
          (case first_existing env of
             None \<Rightarrow> None
           | Some path \<Rightarrow>
               (case joblib_load_model env path of Inr m \<Rightarrow> Some m | Inl e' \<Rightarrow> None)))"

text \<open>An artifact file that exists fails to load: the first existing model file after
  the registry failed, or the scaler file.\<close>

definition artifact_load_raises :: "environment \<Rightarrow> bool" where
  "artifact_load_raises env =
     ((isl (mlflow_load_model env) \<and>
       (case first_existing env of
          None \<Rightarrow> False
        | Some path \<Rightarrow> isl (joblib_load_model env path))) \<or>
      (path_exists env scaler_path \<and> isl (joblib_load_scaler env)))"

subsection \<open>Concrete services, environments and worlds\<close>

text \<open>
  Exact decimal arithmetic, for the concrete evaluations below: the exact product, and
  rounding of the exact value to the nearest multiple of \<open>10 ^ - ndigits\<close>, a tie to
  the even one. It is not the interpreter's binary arithmetic in general; at the values
  evaluated below (2.174, its products 1.8479 and 2.5001, and 2.17 * 0.85 = 1.8445) no
  rounding tie is near, and binary64 arithmetic rounds to the same two-decimal results.
\<close>

definition round_half_even :: "real \<Rightarrow> int" where
  "round_half_even x =
     (let n = \<lfloor>x\<rfloor>; d = x - of_int n
      in if d < 1 / 2 then n else if 1 / 2 < d then n + 1 else if even n then n else n + 1)"

definition decimal_round :: "real \<Rightarrow> nat \<Rightarrow> real" where
  "decimal_round x ndigits = of_int (round_half_even (x * 10 ^ ndigits)) / 10 ^ ndigits"

definition decimal_arithmetic :: arithmetic where
  "decimal_arithmetic = \<lparr>float_mul = (\<lambda>x c. x * c), float_round = decimal_round\<rparr>"

definition constant_model :: "real \<Rightarrow> estimator" where
  "constant_model p X = Inr p"

definition example_service :: MLModelService where
  "example_service =
     \<lparr>model = Some (constant_model (2174 / 1000)), scaler = None,
      model_info = [''version'' \<mapsto> Str ''1.0.0''], feature_names = []\<rparr>"

definition world0 :: world where
  "world0 =
     \<lparr>predictions = [], db_writable = True, METRICS_ENABLED = True,
      prediction_counter = Some 0, prediction_histogram = Some 0, clock = 7\<rparr>"

definition readonly_world :: world where
  "readonly_world =
     \<lparr>predictions = [], db_writable = False, METRICS_ENABLED = False,
      prediction_counter = None, prediction_histogram = None, clock = 7\<rparr>"

text \<open>No registry and no file at all.\<close>

definition env_no_artifacts :: environment where
  "env_no_artifacts =
     \<lparr>mlflow_load_model = Inl (Exception (Text ''registry unreachable'')),
      path_exists = (\<lambda>path. False),
      joblib_load_model = (\<lambda>path. Inl (Exception (Text ''no such file''))),
      joblib_load_scaler = Inl (Exception (Text ''no such file'')),
      datetime_now = 7\<rparr>"

text \<open>No registry; the random forest and the linear model are on disk, the gradient
  boosting model and the scaler are not.\<close>

definition env_two_files :: environment where
  "env_two_files =
     \<lparr>mlflow_load_model = Inl (Exception (Text ''registry unreachable'')),
      path_exists =
        (\<lambda>path. path = ''models/random_forest.joblib'' \<or>
                  path = ''models/linear_regression.joblib''),
      joblib_load_model =
        (\<lambda>path. if path = ''models/random_forest.joblib'' then Inr (constant_model 2)
                  else if path = ''models/linear_regression.joblib'' then Inr (constant_model 3)
                  else Inl (Exception (Text ''no such file''))),
      joblib_load_scaler = Inl (Exception (Text ''no such file'')),
      datetime_now = 7\<rparr>"

text \<open>The registry answers with a model; the scaler file is on disk and does not load.\<close>

definition env_bad_scaler :: environment where
  "env_bad_scaler =
     \<lparr>mlflow_load_model = Inr (constant_model 2),
      path_exists = (\<lambda>path. path = ''models/scaler.joblib''),
      joblib_load_model = (\<lambda>path. Inl (Exception (Text ''no such file''))),
      joblib_load_scaler = Inl (Exception (Text ''invalid pickle data'')),
      datetime_now = 7\<rparr>"

section \<open>Validation of a request\<close>

lemma errors_of_Field:
  "errors_of (Field name lo hi v # rs) = range_violation (name, lo, hi, v) @ errors_of rs"
  by (simp add: Field_def)

lemma AveOccup_validator_unreachable:
  "then_validator (Field ''AveOccup'' (1 / 2) 20 v) validate_ave_occup = Field ''AveOccup'' (1 / 2) 20 v"
  by (simp add: then_validator_def Field_def validate_ave_occup_def)

lemma errors_are_range_violations:
  "errors_of (validate_fields raw) = range_violations raw"
  unfolding validate_fields_def range_violations_def declared_ranges_def
    AveOccup_validator_unreachable
  by (simp only: errors_of_Field list.map concat.simps errors_of.simps append_Nil2)

lemma range_violations_Nil_iff:
  "range_violations raw = [] \<longleftrightarrow> in_declared_ranges raw"
  unfolding range_violations_def declared_ranges_def in_declared_ranges_def
  by (simp add: not_less)

text \<open>Every field outside its range is named in the report, once, and no other.\<close>

lemma violation_names_general:
  "map error_loc (concat (map range_violation rs)) =
     [name. (name, lo, hi, v) \<leftarrow> rs, v < lo \<or> hi < v]"
  by (induction rs) auto

lemma violation_names_offending_fields:
  "map error_loc (range_violations raw) =
     [name. (name, lo, hi, v) \<leftarrow> declared_ranges raw, v < lo \<or> hi < v]"
  unfolding range_violations_def by (rule violation_names_general)

text \<open>The requests with every field at its minimum, and at its maximum, are accepted.\<close>

lemma boundary_requests_accepted:
  "HousingFeatures_init
     \<lparr>MedInc = 0, HouseAge = 0, AveRooms = 1, AveBedrms = 0, Population = 0,
      AveOccup = 1 / 2, Latitude = 32, Longitude = - 125\<rparr> =
   Inr \<lparr>MedInc = 0, HouseAge = 0, AveRooms = 1, AveBedrms = 0, Population = 0,
      AveOccup = 1 / 2, Latitude = 32, Longitude = - 125\<rparr>"
  "HousingFeatures_init
     \<lparr>MedInc = 15, HouseAge = 100, AveRooms = 20, AveBedrms = 5, Population = 50000,
      AveOccup = 20, Latitude = 42, Longitude = - 114\<rparr> =
   Inr \<lparr>MedInc = 15, HouseAge = 100, AveRooms = 20, AveBedrms = 5, Population = 50000,
      AveOccup = 20, Latitude = 42, Longitude = - 114\<rparr>"
  by (simp_all add: HousingFeatures_init_def Let_def errors_are_range_violations
      range_violations_Nil_iff in_declared_ranges_def)

text \<open>
  Claim C1, as the code has it. A request is accepted exactly when each of the eight
  fields lies within its inclusive declared range (which already makes AveOccup
  positive); a rejected request is answered with the list of the bound violated by each
  field outside its range, all such fields and not just the first. The rule
  \<open>AveOccup > 0\<close> is checked only on a value that passed the range 0.5 to 20, so it
  never contributes an entry of its own.
\<close>

theorem validation_accepts_exactly_declared_ranges:
  "(HousingFeatures_init raw = Inr raw) = (in_declared_ranges raw \<and> 0 < AveOccup raw) \<and>
   HousingFeatures_init raw =
     (if in_declared_ranges raw \<and> 0 < AveOccup raw then Inr raw
      else Inl (range_violations raw)) \<and>
   (range_violations raw = []) = in_declared_ranges raw"
proof -
  have pos: "in_declared_ranges raw \<Longrightarrow> 0 < AveOccup raw"
    by (simp add: in_declared_ranges_def)
  have init: "HousingFeatures_init raw =
      (if in_declared_ranges raw then Inr raw else Inl (range_violations raw))"
    by (simp add: HousingFeatures_init_def Let_def errors_are_range_violations
        range_violations_Nil_iff)
  show ?thesis
    using pos init by (auto simp: range_violations_Nil_iff)
qed

text \<open>
  Claim C1 as stated asks that a rejection reports every violated constraint. At
  \<open>AveOccup = 0\<close> the rule \<open>AveOccup > 0\<close> is violated (the validator, run on 0, raises),
  yet the rejection lists the range floor alone.
\<close>

theorem ave_occup_rule_is_not_reported:
  "validate_ave_occup 0 = Inl (ValueError ''AveOccup'' ''AveOccup must be greater than 0'') \<and>
   HousingFeatures_init (test_features\<lparr>AveOccup := 0\<rparr>) = Inl [NotGe ''AveOccup'' (1 / 2)]"
  by (simp add: validate_ave_occup_def HousingFeatures_init_def validate_fields_def
      test_features_def Field_def then_validator_def)


section \<open>Model information\<close>

text \<open>
  Claim C9: for every state of the service, whatever model or scaler it holds, the
  \<open>performance_metrics\<close> of \<^verbatim>\<open>GET /model/info\<close> is the constant
  \<open>{rmse: 0.52, r2_score: 0.82}\<close>.
\<close>

theorem model_info_metrics_are_constant:
  "performance_metrics (get_model_info ml_service) = [''rmse'' \<mapsto> 0.52, ''r2_score'' \<mapsto> 0.82]"
  by (simp add: get_model_info_def)

section \<open>Model Store: start-up\<close>

lemma load_local_find:
  "load_local env files self =
     (case find (path_exists env) (map snd files) of
        None \<Rightarrow> Inr self
      | Some path \<Rightarrow>
          (case joblib_load_model env path of
             Inl e \<Rightarrow> Inl e
           | Inr m \<Rightarrow>
               Inr (self\<lparr>model := Some m,
                         model_info := (model_info self)
                           (''source'' \<mapsto> Str (''Local file: '' @ path),
                            ''version'' \<mapsto> Str ''1.0.0'')\<rparr>)))"
  by (induction env files self rule: load_local.induct) simp_all

lemma resolve_model_isl:
  "isl (resolve_model env self) \<longleftrightarrow>
     isl (mlflow_load_model env) \<and>
     (case first_existing env of None \<Rightarrow> False | Some path \<Rightarrow> isl (joblib_load_model env path))"
  by (simp add: resolve_model_def load_local_find first_existing_def
      split: sum.splits option.splits)

lemma resolve_model_model:
  "resolve_model env self = Inr s \<Longrightarrow> model self = None \<Longrightarrow> model s = resolved_model env"
  by (auto simp: resolve_model_def load_local_find first_existing_def resolved_model_def
      split: sum.splits option.splits)

lemma load_scaler_isl:
  "isl (load_scaler env self) \<longleftrightarrow> path_exists env scaler_path \<and> isl (joblib_load_scaler env)"
  by (simp add: load_scaler_def scaler_path_def split: sum.splits)

lemma load_scaler_model: "load_scaler env self = Inr s \<Longrightarrow> model s = model self"
  by (auto simp: load_scaler_def split: if_splits sum.splits)

lemma set_metadata_model: "model (set_metadata env self) = model self"
  by (simp add: set_metadata_def Let_def)

lemma load_model_isl:
  "isl (load_model env self) \<longleftrightarrow> isl (resolve_model env self) \<or>
     (path_exists env scaler_path \<and> isl (joblib_load_scaler env))"
proof (cases "resolve_model env self")
  case (Inl e)
  then show ?thesis by (simp add: load_model_def)
next
  case (Inr s1)
  then show ?thesis
    using load_scaler_isl[of env s1]
    by (cases "load_scaler env s1") (simp_all add: load_model_def)
qed

lemma first_existing_order:
  "first_existing env =
     (if path_exists env ''models/gradient_boosting.joblib''
      then Some ''models/gradient_boosting.joblib''
      else if path_exists env ''models/random_forest.joblib''
      then Some ''models/random_forest.joblib''
      else if path_exists env ''models/linear_regression.joblib''
      then Some ''models/linear_regression.joblib''
      else None)"
  by (simp add: first_existing_def model_files_def)

lemma predict_without_model:
  "model s = None \<Longrightarrow>
   predict s w features = (Inl (RuntimeError (Text ''Model not loaded'')), w)"
  by (simp add: predict_def)

lemma load_model_model:
  assumes "load_model env MLModelService_new = Inr s"
  shows "model s = resolved_model env"
proof -
  from assms obtain s1 s2 where
    r: "resolve_model env MLModelService_new = Inr s1" and
    l: "load_scaler env s1 = Inr s2" and
    s: "s = set_metadata env s2"
    by (auto simp: load_model_def split: sum.splits)
  have "model s1 = resolved_model env"
    using resolve_model_model[OF r] by (simp add: MLModelService_new_def)
  then show ?thesis
    using load_scaler_model[OF l] s by (simp add: set_metadata_model)
qed

lemma load_model_fatal_iff:
  "isl (load_model env MLModelService_new) = artifact_load_raises env"
  by (simp add: load_model_isl resolve_model_isl artifact_load_raises_def)

text \<open>
  Claim C2, as the code has it. The local model file that is tried is the first existing
  one in the order gradient boosting, random forest, linear regression; when the
  registry fails and that file loads, its model is the one the store holds. Start-up
  fails fatally exactly when an existing artifact file fails to load: that first
  existing model file after a registry failure, or the scaler file, whether or not a
  model was resolved. When the registry fails and no model file exists, nothing is
  resolved and start-up is fatal only if the scaler file exists and fails to load;
  whenever start-up completes with nothing resolved, the service holds no model and
  every call of \<^verbatim>\<open>predict\<close> raises "Model not loaded".
\<close>

theorem load_model_outcome:
  "first_existing env =
     (if path_exists env ''models/gradient_boosting.joblib''
      then Some ''models/gradient_boosting.joblib''
      else if path_exists env ''models/random_forest.joblib''
      then Some ''models/random_forest.joblib''
      else if path_exists env ''models/linear_regression.joblib''
      then Some ''models/linear_regression.joblib''
      else None) \<and>
   (\<forall>e path m. mlflow_load_model env = Inl e \<longrightarrow> first_existing env = Some path \<longrightarrow>
      joblib_load_model env path = Inr m \<longrightarrow> resolved_model env = Some m) \<and>
   isl (load_model env MLModelService_new) = artifact_load_raises env \<and>
   (\<forall>e. mlflow_load_model env = Inl e \<longrightarrow> first_existing env = None \<longrightarrow>
      resolved_model env = None \<and>
      isl (load_model env MLModelService_new) =
        (path_exists env scaler_path \<and> isl (joblib_load_scaler env))) \<and>
   (\<forall>s. load_model env MLModelService_new = Inr s \<longrightarrow>
      model s = resolved_model env \<and>
      (resolved_model env = None \<longrightarrow>
         (\<forall>w features.
            predict s w features = (Inl (RuntimeError (Text ''Model not loaded'')), w))))"
proof (intro conjI allI impI)
  show "first_existing env =
     (if path_exists env ''models/gradient_boosting.joblib''
      then Some ''models/gradient_boosting.joblib''
      else if path_exists env ''models/random_forest.joblib''
      then Some ''models/random_forest.joblib''
      else if path_exists env ''models/linear_regression.joblib''
      then Some ''models/linear_regression.joblib''
      else None)"
    by (rule first_existing_order)
next
  fix e path m
  assume "mlflow_load_model env = Inl e" "first_existing env = Some path"
    "joblib_load_model env path = Inr m"
  then show "resolved_model env = Some m"
    by (simp add: resolved_model_def)
next
  show "isl (load_model env MLModelService_new) = artifact_load_raises env"
    by (rule load_model_fatal_iff)
next
  fix e
  assume "mlflow_load_model env = Inl e" "first_existing env = None"
  then show "resolved_model env = None"
    by (simp add: resolved_model_def)
next
  fix e
  assume "mlflow_load_model env = Inl e" "first_existing env = None"
  then show "isl (load_model env MLModelService_new) =
      (path_exists env scaler_path \<and> isl (joblib_load_scaler env))"
    by (simp add: load_model_fatal_iff artifact_load_raises_def)
next
  fix s
  assume "load_model env MLModelService_new = Inr s"
  then show "model s = resolved_model env"
    by (rule load_model_model)
next
  fix s w features
  assume "load_model env MLModelService_new = Inr s" "resolved_model env = None"
  then have "model s = None"
    using load_model_model by simp
  then show "predict s w features = (Inl (RuntimeError (Text ''Model not loaded'')), w)"
    by (rule predict_without_model)
qed

lemma first_existing_two_files:
  "first_existing env_two_files = Some ''models/random_forest.joblib''"
  by (simp add: first_existing_def env_two_files_def model_files_def)

lemma first_existing_no_artifacts: "first_existing env_no_artifacts = None"
  by (simp add: first_existing_def env_no_artifacts_def model_files_def)

text \<open>
  With the random forest and the linear model on disk, the random forest is taken and
  start-up completes. With no registry and no file at all, start-up completes as well,
  and a prediction raises "Model not loaded".
\<close>

theorem load_model_outcome_witness:
  "resolved_model env_two_files = Some (constant_model 2) \<and>
   (\<exists>s. load_model env_two_files MLModelService_new = Inr s \<and>
        model s = Some (constant_model 2)) \<and>
   resolved_model env_no_artifacts = None \<and>
   (\<exists>s. load_model env_no_artifacts MLModelService_new = Inr s \<and>
        predict s world0 test_features =
          (Inl (RuntimeError (Text ''Model not loaded'')), world0))"
proof -
  note two = load_model_outcome[of env_two_files]
  note none = load_model_outcome[of env_no_artifacts]
  have reg: "mlflow_load_model env_two_files = Inl (Exception (Text ''registry unreachable''))"
    by (simp add: env_two_files_def)
  have rf: "joblib_load_model env_two_files ''models/random_forest.joblib'' = Inr (constant_model 2)"
    by (simp add: env_two_files_def)
  have sc: "\<not> path_exists env_two_files scaler_path"
    by (simp add: env_two_files_def scaler_path_def)
  have rm: "resolved_model env_two_files = Some (constant_model 2)"
    using two reg first_existing_two_files rf by blast
  have "\<not> artifact_load_raises env_two_files"
    by (simp add: artifact_load_raises_def first_existing_two_files reg rf sc)
  with two have "\<not> isl (load_model env_two_files MLModelService_new)"
    by simp
  then obtain s where s: "load_model env_two_files MLModelService_new = Inr s"
    by (cases "load_model env_two_files MLModelService_new") auto
  with two rm have ms: "model s = Some (constant_model 2)"
    by simp
  have reg0: "mlflow_load_model env_no_artifacts = Inl (Exception (Text ''registry unreachable''))"
    by (simp add: env_no_artifacts_def)
  have sc0: "\<not> path_exists env_no_artifacts scaler_path"
    by (simp add: env_no_artifacts_def)
  from none reg0 first_existing_no_artifacts
  have rm0: "resolved_model env_no_artifacts = None"
    and f0: "isl (load_model env_no_artifacts MLModelService_new) =
      (path_exists env_no_artifacts scaler_path \<and> isl (joblib_load_scaler env_no_artifacts))"
    by blast+
  from f0 sc0 have "\<not> isl (load_model env_no_artifacts MLModelService_new)"
    by simp
  then obtain s0 where s0: "load_model env_no_artifacts MLModelService_new = Inr s0"
    by (cases "load_model env_no_artifacts MLModelService_new") auto
  with none rm0 have "predict s0 world0 test_features =
      (Inl (RuntimeError (Text ''Model not loaded'')), world0)"
    by blast
  with rm s ms rm0 s0 show ?thesis
    by blast
qed

text \<open>
  Claim C2 as stated makes start-up fatal exactly when no model can be resolved. Both
  directions fail. With no registry and no file, nothing is resolved, yet
  \<^verbatim>\<open>load_model\<close> returns normally with no model and the service starts; a
  prediction then raises "Model not loaded". With a model resolved from the registry
  and a scaler file that does not load, start-up is fatal.
\<close>

theorem fatal_start_is_not_absence_of_model:
  "resolved_model env_no_artifacts = None \<and>
   (case load_model env_no_artifacts MLModelService_new of
      Inl e \<Rightarrow> False
    | Inr s \<Rightarrow>
        model s = None \<and>
        fst (predict s world0 test_features) = Inl (RuntimeError (Text ''Model not loaded''))) \<and>
   resolved_model env_bad_scaler = Some (constant_model 2) \<and>
   load_model env_bad_scaler MLModelService_new =
     Inl (RuntimeError (Prefixed ''Could not load model: ''
       (Exception (Text ''invalid pickle data''))))"
proof -
  have r: "resolved_model env_no_artifacts = None"
    by (simp add: resolved_model_def first_existing_def model_files_def env_no_artifacts_def)
  have l: "load_model env_no_artifacts MLModelService_new =
      Inr (set_metadata env_no_artifacts MLModelService_new)"
    by (simp add: load_model_def resolve_model_def model_files_def load_scaler_def
        env_no_artifacts_def)
  have m: "model (set_metadata env_no_artifacts MLModelService_new) = None"
    by (simp add: set_metadata_def Let_def MLModelService_new_def)
  have rb: "resolved_model env_bad_scaler = Some (constant_model 2)"
    by (simp add: resolved_model_def env_bad_scaler_def)
  have lb: "load_model env_bad_scaler MLModelService_new =
     Inl (RuntimeError (Prefixed ''Could not load model: ''
       (Exception (Text ''invalid pickle data''))))"
    by (simp add: load_model_def resolve_model_def load_scaler_def env_bad_scaler_def)
  show ?thesis
    by (simp add: r l m rb lb predict_def)
qed

section \<open>The prediction pipeline\<close>

lemma timed_predict_fst: "fst (timed_predict m w X) = m X"
  by (simp add: timed_predict_def)

lemma timed_predict_frame:
  "predictions (snd (timed_predict m w X)) = predictions w"
  "db_writable (snd (timed_predict m w X)) = db_writable w"
  "METRICS_ENABLED (snd (timed_predict m w X)) = METRICS_ENABLED w"
  "prediction_counter (snd (timed_predict m w X)) = prediction_counter w"
  "clock (snd (timed_predict m w X)) = clock w"
  by (simp_all add: timed_predict_def)

lemma log_prediction_frame:
  "db_writable (log_prediction svc w f p) = db_writable w"
  "METRICS_ENABLED (log_prediction svc w f p) = METRICS_ENABLED w"
  "prediction_counter (log_prediction svc w f p) = prediction_counter w"
  "prediction_histogram (log_prediction svc w f p) = prediction_histogram w"
  "clock (log_prediction svc w f p) = clock w"
  by (simp_all add: log_prediction_def insert_prediction_def)

lemma log_prediction_rows:
  "predictions (log_prediction svc w f p) =
     (if db_writable w
      then predictions w @
        [Row (Suc (length (predictions w))) (clock w) f p (get_version svc ''unknown'')]
      else predictions w)"
  by (simp add: log_prediction_def insert_prediction_def)

lemma update_metrics_frame:
  "predictions (update_metrics w) = predictions w"
  "db_writable (update_metrics w) = db_writable w"
  "METRICS_ENABLED (update_metrics w) = METRICS_ENABLED w"
  "prediction_histogram (update_metrics w) = prediction_histogram w"
  "clock (update_metrics w) = clock w"
  by (simp_all add: update_metrics_def)

lemma update_metrics_counter:
  "prediction_counter (update_metrics w) =
     (if METRICS_ENABLED w then map_option Suc (prediction_counter w) else prediction_counter w)"
  by (cases "prediction_counter w") (simp_all add: update_metrics_def)

text \<open>What a successful call of \<open>predict\<close> is: the model is there, preprocessing and the
  model's own \<open>predict\<close> return, and the world is the one after timing, logging and
  counting.\<close>

lemma predict_Inr_iff:
  "predict svc w f = (Inr p, w') \<longleftrightarrow>
     (\<exists>m X. model svc = Some m \<and> preprocess_input svc f = Inr X \<and> m X = Inr p \<and>
        w' = update_metrics (log_prediction svc (snd (timed_predict m w X)) f p))"
proof (cases "model svc")
  case None
  then show ?thesis by (simp add: predict_def)
next
  case (Some m)
  show ?thesis
  proof (cases "preprocess_input svc f")
    case (Inl e)
    with Some show ?thesis by (simp add: predict_def)
  next
    case (Inr X)
    obtain w1 where t: "timed_predict m w X = (m X, w1)"
      using timed_predict_fst[of m w X] by (cases "timed_predict m w X") auto
    then have w1: "snd (timed_predict m w X) = w1"
      by simp
    show ?thesis
      unfolding w1 using Some Inr t by (cases "m X") (auto simp: predict_def)
  qed
qed

lemma predict_success_rows:
  assumes "predict svc w f = (Inr p, w')"
  shows "predictions w' =
     (if db_writable w
      then predictions w @
        [Row (Suc (length (predictions w))) (clock w) f p (get_version svc ''unknown'')]
      else predictions w)"
  using assms unfolding predict_Inr_iff
  by (auto simp: update_metrics_frame log_prediction_rows timed_predict_frame)

lemma predict_success_counter:
  assumes "predict svc w f = (Inr p, w')"
  shows "prediction_counter w' =
     (if METRICS_ENABLED w then map_option Suc (prediction_counter w) else prediction_counter w)"
  using assms unfolding predict_Inr_iff
  by (auto simp: update_metrics_counter log_prediction_frame timed_predict_frame)

lemma predict_clock: "clock (snd (predict svc w f)) = clock w"
proof (cases "model svc")
  case None
  then show ?thesis by (simp add: predict_def)
next
  case (Some m)
  show ?thesis
  proof (cases "preprocess_input svc f")
    case (Inl e)
    with Some show ?thesis by (simp add: predict_def)
  next
    case (Inr X)
    obtain w1 where t: "timed_predict m w X = (m X, w1)"
      using timed_predict_fst[of m w X] by (cases "timed_predict m w X") auto
    then have w1: "clock w1 = clock w"
      using timed_predict_frame(5)[of m w X] by simp
    show ?thesis
      using Some Inr t w1
      by (cases "m X") (simp_all add: predict_def update_metrics_frame log_prediction_frame)
  qed
qed

lemma predict_price_Inr_iff:
  "predict_price ar svc w f = (Inr r, w') \<longleftrightarrow>
     (\<exists>p. predict svc w f = (Inr p, w') \<and>
        r = \<lparr>prediction = float_round ar p 2,
             model_version = get_version svc ''unknown'',
             timestamp = clock w',
             confidence_interval =
               [''lower'' \<mapsto> float_round ar (float_mul ar p 0.85) 2, ''upper'' \<mapsto> float_round ar (float_mul ar p 1.15) 2]\<rparr>)"
proof -
  obtain x w1 where pr: "predict svc w f = (x, w1)"
    by (cases "predict svc w f")
  show ?thesis
    using pr by (cases x) (auto simp: predict_price_def)
qed

text \<open>
  Claim C3, as the code has it. In every successful answer of \<^verbatim>\<open>predict_price\<close>
  the interval is computed from the model's unrounded output \<open>p\<close>, the value
  \<^verbatim>\<open>ml_service.predict\<close> returned for this request:
  \<open>lower = round(p * 0.85, 2)\<close> and \<open>upper = round(p * 1.15, 2)\<close>, while the
  \<open>prediction\<close> of the same answer is \<open>round(p, 2)\<close>. Product and
  \<open>round\<close> are the interpreter's float operations, whatever they return.
\<close>

theorem confidence_interval_of_unrounded_prediction:
  assumes "predict_price ar svc w f = (Inr r, w')"
  shows "\<exists>p. predict svc w f = (Inr p, w') \<and>
          prediction r = float_round ar p 2 \<and>
          confidence_interval r ''lower'' = Some (float_round ar (float_mul ar p 0.85) 2) \<and>
          confidence_interval r ''upper'' = Some (float_round ar (float_mul ar p 1.15) 2)"
  using assms unfolding predict_price_Inr_iff by auto

lemma preprocess_example:
  "preprocess_input example_service f = Inr (handle_non_finite (add_engineered_features f))"
  by (simp add: preprocess_input_def example_service_def)

lemma example_predict:
  "predict example_service w f =
     (Inr (2174 / 1000),
      update_metrics (log_prediction example_service
        (snd (timed_predict (constant_model (2174 / 1000)) w
           (handle_non_finite (add_engineered_features f)))) f (2174 / 1000)))"
  unfolding predict_Inr_iff
  by (simp add: preprocess_example) (simp add: example_service_def constant_model_def)

lemma example_round:
  "float_round decimal_arithmetic (2174 / 1000) 2 = 217 / 100"
  by (simp add: decimal_arithmetic_def decimal_round_def round_half_even_def Let_def)

lemma example_round_lower:
  "float_round decimal_arithmetic (float_mul decimal_arithmetic (2174 / 1000) 0.85) 2 = 185 / 100"
  by (simp add: decimal_arithmetic_def decimal_round_def round_half_even_def Let_def)

lemma example_round_upper:
  "float_round decimal_arithmetic (float_mul decimal_arithmetic (2174 / 1000) 1.15) 2 = 250 / 100"
  by (simp add: decimal_arithmetic_def decimal_round_def round_half_even_def Let_def)

lemma rounded_then_scaled:
  "float_round decimal_arithmetic (float_mul decimal_arithmetic (217 / 100) 0.85) 2 = 184 / 100"
  by (simp add: decimal_arithmetic_def decimal_round_def round_half_even_def Let_def)

lemma example_predict_price:
  "fst (predict_price decimal_arithmetic example_service w f) =
     Inr \<lparr>prediction = 217 / 100, model_version = ''1.0.0'', timestamp = clock w,
          confidence_interval = [''lower'' \<mapsto> 185 / 100, ''upper'' \<mapsto> 250 / 100]\<rparr>"
proof -
  obtain w' where p: "predict example_service w f = (Inr (2174 / 1000), w')"
    using example_predict by blast
  have c: "clock w' = clock w"
    using predict_clock[of example_service w f] unfolding p by simp
  have "predict_price decimal_arithmetic example_service w f =
      (Inr \<lparr>prediction = float_round decimal_arithmetic (2174 / 1000) 2,
            model_version = get_version example_service ''unknown'',
            timestamp = clock w',
            confidence_interval =
              [''lower'' \<mapsto>
                 float_round decimal_arithmetic
                   (float_mul decimal_arithmetic (2174 / 1000) 0.85) 2,
               ''upper'' \<mapsto>
                 float_round decimal_arithmetic
                   (float_mul decimal_arithmetic (2174 / 1000) 1.15) 2]\<rparr>, w')"
    unfolding predict_price_Inr_iff using p by blast
  moreover have "get_version example_service ''unknown'' = ''1.0.0''"
    by (simp add: get_version_def example_service_def)
  ultimately show ?thesis
    unfolding example_round example_round_lower example_round_upper c by simp
qed

text \<open>A model that returns 2.174: the answer carries 2.17, 1.85 and 2.50.\<close>

theorem confidence_interval_of_unrounded_prediction_witness:
  "\<exists>p. fst (predict example_service world0 test_features) = Inr p \<and>
        float_round decimal_arithmetic p 2 = 217 / 100 \<and>
        float_round decimal_arithmetic (float_mul decimal_arithmetic p 0.85) 2 = 185 / 100 \<and>
        float_round decimal_arithmetic (float_mul decimal_arithmetic p 1.15) 2 = 250 / 100"
proof -
  obtain r w' where pp: "predict_price decimal_arithmetic example_service world0 test_features = (Inr r, w')"
    and r: "r = \<lparr>prediction = 217 / 100, model_version = ''1.0.0'', timestamp = clock world0,
          confidence_interval = [''lower'' \<mapsto> 185 / 100, ''upper'' \<mapsto> 250 / 100]\<rparr>"
    using example_predict_price[of world0 test_features]
    by (cases "predict_price decimal_arithmetic example_service world0 test_features") auto
  from confidence_interval_of_unrounded_prediction[OF pp]
  obtain p where "predict example_service world0 test_features = (Inr p, w')"
    and "prediction r = float_round decimal_arithmetic p 2"
    and "confidence_interval r ''lower'' = Some (float_round decimal_arithmetic (float_mul decimal_arithmetic p 0.85) 2)"
    and "confidence_interval r ''upper'' = Some (float_round decimal_arithmetic (float_mul decimal_arithmetic p 1.15) 2)"
    by blast
  then show ?thesis
    unfolding r by auto
qed

text \<open>
  Claim C3 as stated computes the interval from the prediction carried in the answer. For
  a model output of 2.174 the answer carries the prediction 2.17 and the lower bound
  1.85 (the product is 1.8479), while \<open>round(2.17 * 0.85, 2)\<close> is 1.84 (the product
  is 1.8445).
\<close>

theorem interval_not_from_rounded_prediction:
  "(case fst (predict_price decimal_arithmetic example_service world0 test_features) of
      Inl e \<Rightarrow> False
    | Inr r \<Rightarrow>
        prediction r = 217 / 100 \<and>
        confidence_interval r ''lower'' = Some (185 / 100) \<and>
        float_round decimal_arithmetic
          (float_mul decimal_arithmetic (prediction r) 0.85) 2 = 184 / 100)"
  unfolding example_predict_price
  by (simp only: sum.case PredictionResponse.select_convs rounded_then_scaled) simp

section \<open>The prediction log\<close>

lemma HousingFeatures_init_eq:
  "HousingFeatures_init raw =
     (if in_declared_ranges raw then Inr raw else Inl (range_violations raw))"
  by (simp add: HousingFeatures_init_def Let_def errors_are_range_violations
      range_violations_Nil_iff)

lemma test_features_valid: "in_declared_ranges test_features"
  by (simp add: in_declared_ranges_def test_features_def)

lemma post_predict_valid:
  "in_declared_ranges body \<Longrightarrow>
   post_predict ar svc w body =
     (case predict_price ar svc w body of
        (Inr response, w') \<Rightarrow> (Status200 response, w')
      | (Inl e, w') \<Rightarrow> (error_response e, w'))"
  by (simp add: post_predict_def HousingFeatures_init_eq)

lemma error_response_not_200: "error_response e \<noteq> Status200 r"
  by (cases e) simp_all

lemma post_predict_200_iff:
  "post_predict ar svc w body = (Status200 r, w') \<longleftrightarrow>
     in_declared_ranges body \<and> predict_price ar svc w body = (Inr r, w')"
proof (cases "in_declared_ranges body")
  case True
  obtain x w1 where "predict_price ar svc w body = (x, w1)"
    by (cases "predict_price ar svc w body")
  then show ?thesis
    using True by (cases x) (simp_all add: post_predict_valid error_response_not_200)
next
  case False
  then show ?thesis
    by (simp add: post_predict_def HousingFeatures_init_eq)
qed

text \<open>
  Claim C4, as the code has it. Let \<open>p\<close> be the model's output for the request,
  the value \<^verbatim>\<open>ml_service.predict\<close> returned. After a successful
  \<^verbatim>\<open>/predict\<close> call, when the log store accepted the insert, the log is the
  old one with exactly one new row, which holds the request's features and \<open>p\<close>
  itself, unrounded; the answer carries \<open>round(p, 2)\<close>. When the insert failed, the
  log is unchanged.
\<close>

theorem successful_predict_appends_unrounded_row:
  assumes "post_predict ar svc w body = (Status200 r, w')"
  shows "\<exists>p. predict svc w body = (Inr p, w') \<and>
          (\<exists>m X. model svc = Some m \<and> preprocess_input svc body = Inr X \<and> m X = Inr p) \<and>
          prediction r = float_round ar p 2 \<and>
          predictions w' =
            (if db_writable w
             then predictions w @
               [Row (Suc (length (predictions w))) (clock w) body p (get_version svc ''unknown'')]
             else predictions w)"
proof -
  from assms have "predict_price ar svc w body = (Inr r, w')"
    by (simp add: post_predict_200_iff)
  then obtain p where p: "predict svc w body = (Inr p, w')"
    and r: "prediction r = float_round ar p 2"
    unfolding predict_price_Inr_iff by auto
  from p have "\<exists>m X. model svc = Some m \<and> preprocess_input svc body = Inr X \<and> m X = Inr p"
    unfolding predict_Inr_iff by blast
  with predict_success_rows[OF p] p r show ?thesis
    by blast
qed

lemma example_predict_rows:
  "predictions (snd (predict example_service w f)) =
     (if db_writable w
      then predictions w @ [Row (Suc (length (predictions w))) (clock w) f (2174 / 1000) ''1.0.0'']
      else predictions w)"
proof -
  obtain w' where p: "predict example_service w f = (Inr (2174 / 1000), w')"
    using example_predict by blast
  have v: "get_version example_service ''unknown'' = ''1.0.0''"
    by (simp add: get_version_def example_service_def)
  show ?thesis
    using predict_success_rows[OF p] unfolding p v by simp
qed

lemma predict_price_snd: "snd (predict_price ar svc w f) = snd (predict svc w f)"
proof -
  obtain x w1 where "predict svc w f = (x, w1)"
    by (cases "predict svc w f")
  then show ?thesis
    by (cases x) (simp_all add: predict_price_def)
qed

lemma post_predict_valid_snd:
  "in_declared_ranges body \<Longrightarrow> snd (post_predict ar svc w body) = snd (predict svc w body)"
proof -
  assume v: "in_declared_ranges body"
  obtain x w1 where pp: "predict_price ar svc w body = (x, w1)"
    by (cases "predict_price ar svc w body")
  then have "snd (post_predict ar svc w body) = w1"
    using v by (cases x) (simp_all add: post_predict_valid)
  with pp predict_price_snd[of ar svc w body] show ?thesis
    by simp
qed

lemma example_post_predict:
  "post_predict decimal_arithmetic example_service w test_features =
     (Status200 \<lparr>prediction = 217 / 100, model_version = ''1.0.0'', timestamp = clock w,
          confidence_interval = [''lower'' \<mapsto> 185 / 100, ''upper'' \<mapsto> 250 / 100]\<rparr>,
      snd (predict example_service w test_features))"
proof -
  obtain x w1 where pp: "predict_price decimal_arithmetic example_service w test_features = (x, w1)"
    by (cases "predict_price decimal_arithmetic example_service w test_features")
  have x: "x = Inr \<lparr>prediction = 217 / 100, model_version = ''1.0.0'', timestamp = clock w,
          confidence_interval = [''lower'' \<mapsto> 185 / 100, ''upper'' \<mapsto> 250 / 100]\<rparr>"
    using example_predict_price[of w test_features] unfolding pp by simp
  have w1: "w1 = snd (predict example_service w test_features)"
    using predict_price_snd[of decimal_arithmetic example_service w test_features] unfolding pp by simp
  show ?thesis
    unfolding post_predict_valid[OF test_features_valid] pp x w1 by simp
qed

text \<open>On an empty writable log, the model output 2.174 is stored in row 1 and the answer
  carries 2.17.\<close>

theorem successful_predict_appends_unrounded_row_witness:
  "fst (predict example_service world0 test_features) = Inr (2174 / 1000) \<and>
   float_round decimal_arithmetic (2174 / 1000) 2 = 217 / 100 \<and>
   predictions (snd (predict example_service world0 test_features)) =
     [Row 1 7 test_features (2174 / 1000) ''1.0.0'']"
proof -
  have v: "get_version example_service ''unknown'' = ''1.0.0''"
    by (simp add: get_version_def example_service_def)
  have w: "db_writable world0" "predictions world0 = []" "clock world0 = 7"
    by (simp_all add: world0_def)
  have e: "fst (predict example_service world0 test_features) = Inr (2174 / 1000)"
    using example_predict[of world0 test_features] by simp
  from successful_predict_appends_unrounded_row
    [OF example_post_predict[of world0], unfolded v]
  obtain p where p: "predict example_service world0 test_features =
      (Inr p, snd (predict example_service world0 test_features))"
    and rows: "predictions (snd (predict example_service world0 test_features)) =
      [Row 1 7 test_features p ''1.0.0'']"
    by (auto simp: w)
  from p have "fst (predict example_service world0 test_features) = Inr p"
    by (metis fst_conv)
  with e have "(Inr p :: exn + real) = Inr (2174 / 1000)"
    by (simp only:)
  then have "p = 2174 / 1000"
    by (simp only: sum.inject)
  with rows e example_round show ?thesis
    by (simp only:)
qed

text \<open>
  Claim C4 as stated fails twice. With an unwritable log store the call succeeds and no
  row is added; with a writable one the row stores 2.174 while the answer carries 2.17.
\<close>

theorem success_without_row_or_with_unrounded_row:
  "(case post_predict decimal_arithmetic example_service readonly_world test_features of
      (Status200 r, w') \<Rightarrow> predictions w' = predictions readonly_world
    | (other, w') \<Rightarrow> False) \<and>
   (case post_predict decimal_arithmetic example_service world0 test_features of
      (Status200 r, w') \<Rightarrow>
        map row_prediction (predictions w') = [2174 / 1000] \<and> prediction r = 217 / 100
    | (other, w') \<Rightarrow> False)"
  unfolding example_post_predict
  by (simp add: example_predict_rows) (simp add: readonly_world_def world0_def)

section \<open>Logging faults, rejected requests and feature engineering\<close>

lemma insert_fails_iff: "isl (insert_prediction w ts f p v) \<longleftrightarrow> \<not> db_writable w"
  by (simp add: insert_prediction_def)

text \<open>
  Claim C5. When the model computes \<open>p\<close> for a valid request and the log store refuses
  the insert, \<^verbatim>\<open>/predict\<close> still answers 200 with the prediction
  \<open>round(p, 2)\<close>; the fault is swallowed and the log is left as it was.
\<close>

theorem logging_failure_does_not_fail_request:
  assumes valid: "in_declared_ranges body"
    and m: "model svc = Some m"
    and X: "preprocess_input svc body = Inr X"
    and p: "m X = Inr p"
    and ro: "\<not> db_writable w"
  shows "isl (insert_prediction w ts body p v) \<and>
         (\<exists>r w'. post_predict ar svc w body = (Status200 r, w') \<and>
            prediction r = float_round ar p 2 \<and> predictions w' = predictions w)"
proof -
  define w' where "w' = update_metrics (log_prediction svc (snd (timed_predict m w X)) body p)"
  have pr: "predict svc w body = (Inr p, w')"
    unfolding predict_Inr_iff w'_def using m X p by simp
  then obtain r where pp: "predict_price ar svc w body = (Inr r, w')"
    and r: "prediction r = float_round ar p 2"
    unfolding predict_price_Inr_iff by simp
  have "post_predict ar svc w body = (Status200 r, w')"
    using valid pp by (simp add: post_predict_200_iff)
  moreover have "predictions w' = predictions w"
    using predict_success_rows[OF pr] ro by simp
  ultimately show ?thesis
    using r ro by (auto simp: insert_fails_iff)
qed

text \<open>The example service on the unwritable store.\<close>

theorem logging_failure_does_not_fail_request_witness:
  "isl (insert_prediction readonly_world 7 test_features (2174 / 1000) ''1.0.0'') \<and>
   (\<exists>r w'. post_predict decimal_arithmetic example_service readonly_world test_features = (Status200 r, w') \<and>
      prediction r = float_round decimal_arithmetic (2174 / 1000) 2 \<and>
      predictions w' = predictions readonly_world)"
proof -
  have m: "model example_service = Some (constant_model (2174 / 1000))"
    by (simp add: example_service_def)
  have p: "constant_model (2174 / 1000)
      (handle_non_finite (add_engineered_features test_features)) = Inr (2174 / 1000)"
    by (simp add: constant_model_def)
  have ro: "\<not> db_writable readonly_world"
    by (simp add: readonly_world_def)
  show ?thesis
    by (rule logging_failure_does_not_fail_request
        [OF test_features_valid m preprocess_example p ro])
qed

text \<open>
  Claim C6. A request with a field outside its declared range is answered with 422 and
  the list of violations, which is not empty; the handler does not run, so the world
  (prediction log, counters) is returned unchanged.
\<close>

theorem invalid_request_is_rejected_without_effects:
  assumes "\<not> in_declared_ranges body"
  shows "post_predict ar svc w body = (Status422 (range_violations body), w) \<and>
         range_violations body \<noteq> []"
  using assms by (simp add: post_predict_def HousingFeatures_init_eq range_violations_Nil_iff)

text \<open>The rejection example of the specification: \<open>MedInc = -1\<close>.\<close>

theorem invalid_request_is_rejected_without_effects_witness:
  "post_predict decimal_arithmetic example_service world0 (test_features\<lparr>MedInc := - 1\<rparr>) =
     (Status422 [NotGe ''MedInc'' 0], world0)"
proof -
  have inv: "\<not> in_declared_ranges (test_features\<lparr>MedInc := - 1\<rparr>)"
    by (simp add: in_declared_ranges_def)
  have rv: "range_violations (test_features\<lparr>MedInc := - 1\<rparr>) = [NotGe ''MedInc'' 0]"
    by (simp add: range_violations_def declared_ranges_def test_features_def)
  from invalid_request_is_rejected_without_effects[OF inv, of decimal_arithmetic example_service world0]
  show ?thesis
    unfolding rv by simp
qed

lemma handle_non_finite_Fin: "handle_non_finite (map Fin xs) = map Fin xs"
  by (induction xs) (simp_all add: handle_non_finite_def column_mean_def)

text \<open>
  Claim C8. For an input that passed validation, \<open>AveOccup \<ge> 0.5\<close> and
  \<open>AveRooms \<ge> 1\<close>, so both denominators are nonzero; the engineered row is the eight
  raw values followed by the three exact ratios; every cell is finite; and the row is
  handed on as it is (to the scaler when there is one, else to the model).
\<close>

theorem feature_engineering_is_total_on_valid_input:
  assumes "HousingFeatures_init raw = Inr f"
  shows "1 / 2 \<le> AveOccup f \<and> 1 \<le> AveRooms f \<and>
     AveOccup f \<noteq> 0 \<and> AveRooms f \<noteq> 0 \<and>
     handle_non_finite (add_engineered_features f) =
       map Fin [MedInc f, HouseAge f, AveRooms f, AveBedrms f, Population f, AveOccup f,
                Latitude f, Longitude f,
                AveRooms f / AveOccup f, AveBedrms f / AveRooms f, Population f / AveOccup f] \<and>
     list_all is_finite (handle_non_finite (add_engineered_features f)) \<and>
     preprocess_input svc f =
       (case scaler svc of
          None \<Rightarrow> Inr (handle_non_finite (add_engineered_features f))
        | Some s \<Rightarrow> s (handle_non_finite (add_engineered_features f)))"
proof -
  from assms have v: "in_declared_ranges f"
    by (auto simp: HousingFeatures_init_eq split: if_splits)
  then have nz: "AveOccup f \<noteq> 0" "AveRooms f \<noteq> 0"
    by (simp_all add: in_declared_ranges_def)
  then have e: "add_engineered_features f =
       map Fin [MedInc f, HouseAge f, AveRooms f, AveBedrms f, Population f, AveOccup f,
                Latitude f, Longitude f,
                AveRooms f / AveOccup f, AveBedrms f / AveRooms f, Population f / AveOccup f]"
    by (simp add: add_engineered_features_def fdiv_def)
  have h: "handle_non_finite (add_engineered_features f) =
       map Fin [MedInc f, HouseAge f, AveRooms f, AveBedrms f, Population f, AveOccup f,
                Latitude f, Longitude f,
                AveRooms f / AveOccup f, AveBedrms f / AveRooms f, Population f / AveOccup f]"
    unfolding e by (rule handle_non_finite_Fin)
  have fin: "list_all is_finite (handle_non_finite (add_engineered_features f))"
    unfolding h by simp
  have pre: "preprocess_input svc f =
       (case scaler svc of
          None \<Rightarrow> Inr (handle_non_finite (add_engineered_features f))
        | Some s \<Rightarrow> s (handle_non_finite (add_engineered_features f)))"
    by (simp add: preprocess_input_def Let_def split: option.splits)
  from v have lo: "1 / 2 \<le> AveOccup f" "1 \<le> AveRooms f"
    by (simp_all add: in_declared_ranges_def)
  show ?thesis
    using lo nz h fin pre by blast
qed

text \<open>The fixed input of the health check.\<close>

theorem feature_engineering_is_total_on_valid_input_witness:
  "handle_non_finite (add_engineered_features test_features) =
     map Fin [5, 10, 6, 1, 1000, 3, 35, - 120, 6 / 3, 1 / 6, 1000 / 3] \<and>
   preprocess_input example_service test_features =
     Inr (handle_non_finite (add_engineered_features test_features))"
proof -
  have i: "HousingFeatures_init test_features = Inr test_features"
    using test_features_valid by (simp add: HousingFeatures_init_eq)
  have s: "scaler example_service = None"
    by (simp add: example_service_def)
  from feature_engineering_is_total_on_valid_input[OF i, of example_service]
  show ?thesis
    unfolding s by (simp add: test_features_def)
qed

section \<open>Health check\<close>

lemma test_features_init: "HousingFeatures_init test_features = Inr test_features"
  using test_features_valid by (simp add: HousingFeatures_init_eq)

lemma health_check_eq:
  "health_check svc w =
     (case predict svc w test_features of
        (Inr p, w') \<Rightarrow>
          ([''status'' \<mapsto> JStr ''healthy'',
            ''model_loaded'' \<mapsto> JBool (model svc \<noteq> None),
            ''scaler_loaded'' \<mapsto> JBool (scaler svc \<noteq> None),
            ''timestamp'' \<mapsto> JTime (clock w')], w')
      | (Inl e, w') \<Rightarrow>
          ([''status'' \<mapsto> JStr ''unhealthy'',
            ''error'' \<mapsto> JMsg (StrOf e),
            ''timestamp'' \<mapsto> JTime (clock w')], w'))"
  by (simp add: health_check_def test_features_init)

lemma health_check_snd: "snd (health_check svc w) = snd (predict svc w test_features)"
proof -
  obtain x w1 where "predict svc w test_features = (x, w1)"
    by (cases "predict svc w test_features")
  then show ?thesis
    by (cases x) (simp_all add: health_check_eq)
qed

text \<open>
  Claim C7, as the code has it. \<^verbatim>\<open>GET /health\<close> reports \<open>healthy\<close> exactly
  when \<^verbatim>\<open>ml_service.predict\<close> on the fixed input returns without raising, and
  \<open>unhealthy\<close> otherwise. A healthy answer has the fields \<open>status\<close>,
  \<open>model_loaded\<close>, \<open>scaler_loaded\<close> and \<open>timestamp\<close>; an unhealthy answer has
  \<open>status\<close>, \<open>error\<close> and \<open>timestamp\<close>.
\<close>

theorem health_check_status_and_fields:
  "(fst (health_check svc w) ''status'' = Some (JStr ''healthy'')) =
     (\<not> isl (fst (predict svc w test_features))) \<and>
   fst (health_check svc w) ''status'' =
     Some (JStr (if isl (fst (predict svc w test_features)) then ''unhealthy'' else ''healthy'')) \<and>
   dom (fst (health_check svc w)) =
     (if isl (fst (predict svc w test_features))
      then {''status'', ''error'', ''timestamp''}
      else {''status'', ''model_loaded'', ''scaler_loaded'', ''timestamp''})"
proof -
  obtain x w1 where p: "predict svc w test_features = (x, w1)"
    by (cases "predict svc w test_features")
  show ?thesis
  proof (cases x)
    case (Inl e)
    with p show ?thesis
      by (auto simp: health_check_eq)
  next
    case (Inr v)
    with p show ?thesis
      by (auto simp: health_check_eq)
  qed
qed

text \<open>
  Claim C7 as stated gives every answer the fields \<open>model_loaded\<close> and
  \<open>scaler_loaded\<close>. A service without a model answers \<open>unhealthy\<close> without them.
\<close>

theorem unhealthy_response_lacks_model_fields:
  "fst (health_check MLModelService_new world0) ''status'' = Some (JStr ''unhealthy'') \<and>
   fst (health_check MLModelService_new world0) ''model_loaded'' = None \<and>
   fst (health_check MLModelService_new world0) ''scaler_loaded'' = None"
  by (simp add: health_check_eq predict_def MLModelService_new_def)

text \<open>
  Claim C10, as the code has it. A health check whose synthetic prediction succeeds
  leaves the world exactly as a \<^verbatim>\<open>/predict\<close> request with the fixed input does:
  when the log store accepts the insert, one row with the fixed input is appended, else
  the log is unchanged; when metrics are enabled the counter is incremented, else it is
  unchanged.
\<close>

theorem health_check_has_effects_of_predict:
  assumes "fst (health_check svc w) ''status'' = Some (JStr ''healthy'')"
  shows "snd (health_check svc w) = snd (post_predict ar svc w test_features) \<and>
     (\<exists>p. fst (predict svc w test_features) = Inr p \<and>
        predictions (snd (health_check svc w)) =
          (if db_writable w
           then predictions w @
             [Row (Suc (length (predictions w))) (clock w) test_features p
                (get_version svc ''unknown'')]
           else predictions w)) \<and>
     prediction_counter (snd (health_check svc w)) =
       (if METRICS_ENABLED w then map_option Suc (prediction_counter w)
        else prediction_counter w)"
proof -
  obtain x w' where p: "predict svc w test_features = (x, w')"
    by (cases "predict svc w test_features")
  have "\<not> isl x"
  proof
    assume "isl x"
    then obtain e where "x = Inl e"
      by (cases x) auto
    with p assms show False
      by (simp add: health_check_eq)
  qed
  then obtain v where x: "x = Inr v"
    by (cases x) auto
  have s: "snd (health_check svc w) = w'"
    using health_check_snd[of svc w] p by simp
  have same: "snd (health_check svc w) = snd (post_predict ar svc w test_features)"
    using post_predict_valid_snd[OF test_features_valid, of ar svc w] health_check_snd[of svc w]
    by simp
  show ?thesis
    using same predict_success_rows[OF p[unfolded x]] predict_success_counter[OF p[unfolded x]]
    unfolding s using p x by auto
qed

lemma example_health:
  "fst (health_check example_service w) ''status'' = Some (JStr ''healthy'')"
proof -
  obtain w' where p: "predict example_service w test_features = (Inr (2174 / 1000), w')"
    using example_predict by blast
  show ?thesis
    by (simp add: health_check_eq p)
qed

text \<open>On an empty writable log with metrics enabled: one row, counter 1.\<close>

theorem health_check_has_effects_of_predict_witness:
  "snd (health_check example_service world0) =
     snd (post_predict decimal_arithmetic example_service world0 test_features) \<and>
   predictions (snd (health_check example_service world0)) =
     [Row 1 7 test_features (2174 / 1000) ''1.0.0''] \<and>
   prediction_counter (snd (health_check example_service world0)) = Some 1"
proof -
  have v: "get_version example_service ''unknown'' = ''1.0.0''"
    by (simp add: get_version_def example_service_def)
  have w: "db_writable world0" "predictions world0 = []" "clock world0 = 7"
    "METRICS_ENABLED world0" "prediction_counter world0 = Some 0"
    by (simp_all add: world0_def)
  obtain w' where p: "predict example_service world0 test_features = (Inr (2174 / 1000), w')"
    using example_predict by blast
  note h = health_check_has_effects_of_predict[OF example_health[of world0]]
  from h have same: "snd (health_check example_service world0) =
      snd (post_predict decimal_arithmetic example_service world0 test_features)"
    by blast
  from h[THEN conjunct2, THEN conjunct1]
  obtain q where q: "fst (predict example_service world0 test_features) = Inr q"
    and rows: "predictions (snd (health_check example_service world0)) =
      [Row 1 7 test_features q ''1.0.0'']"
    unfolding v by (auto simp: w)
  from q have "q = 2174 / 1000"
    unfolding p by simp
  moreover have "prediction_counter (snd (health_check example_service world0)) = Some 1"
    using h[THEN conjunct2, THEN conjunct2] by (simp add: w)
  ultimately show ?thesis
    using same rows by blast
qed

text \<open>
  Claim C10 as stated has every successful probe append a row and increment the counter.
  With an unwritable log store and metrics disabled the probe is healthy, the log is
  unchanged and there is no counter.
\<close>

theorem healthy_probe_without_row_or_counter:
  "fst (health_check example_service readonly_world) ''status'' = Some (JStr ''healthy'') \<and>
   predictions (snd (health_check example_service readonly_world)) = predictions readonly_world \<and>
   prediction_counter (snd (health_check example_service readonly_world)) = None"
proof -
  obtain w' where p: "predict example_service readonly_world test_features = (Inr (2174 / 1000), w')"
    using example_predict by blast
  have w: "\<not> db_writable readonly_world" "\<not> METRICS_ENABLED readonly_world"
    "prediction_counter readonly_world = None"
    by (simp_all add: readonly_world_def)
  show ?thesis
    using predict_success_rows[OF p] predict_success_counter[OF p]
    by (simp add: example_health health_check_snd p w)
qed

end
